theory Spec2Isabelle
  imports Complex_Main "HOL-Library.Sublist"
begin

section \<open>The create-trip page: data model\<close>

text \<open>
  The page \<^verbatim>\<open>app/routes/admin/create-trip.tsx\<close> is a form component with three pieces of
  state (\<^verbatim>\<open>formData\<close>, \<^verbatim>\<open>loading\<close>, \<^verbatim>\<open>error\<close>), a change handler, an asynchronous submit
  handler and a filtering callback of the country combo box.

  A JavaScript string is represented by the list of its characters; nothing in the file
  indexes a string or measures its length, only emptiness, equality, concatenation and
  \<^verbatim>\<open>includes\<close> are used.
\<close>

subsection \<open>JavaScript numbers and values\<close>

text \<open>
  A \<^verbatim>\<open>number\<close> is an IEEE double: a finite value (every finite double is a rational; the
  two zeros compare equal and are one value here), \<^verbatim>\<open>NaN\<close>, or one of the infinities.
\<close>

datatype jsnum = Finite rat | NaN | PosInf | NegInf

text \<open>The relational operator \<^verbatim>\<open>x < y\<close> on numbers: false as soon as one side is \<^verbatim>\<open>NaN\<close>.\<close>

fun js_less :: "jsnum \<Rightarrow> jsnum \<Rightarrow> bool" where
  "js_less NaN _ = False"
| "js_less _ NaN = False"
| "js_less (Finite a) (Finite b) = (a < b)"
| "js_less (Finite _) PosInf = True"
| "js_less (Finite _) NegInf = False"
| "js_less PosInf _ = False"
| "js_less NegInf NegInf = False"
| "js_less NegInf _ = True"

text \<open>
  \<^verbatim>\<open>handleChange\<close> accepts \<^verbatim>\<open>value: string | number\<close> for any key, so a field of the form
  object holds a value of either kind.
\<close>

datatype jsvalue = JSString string | JSNumber jsnum

text \<open>\<^verbatim>\<open>!x\<close> is \<open>\<not> ToBoolean x\<close>: the falsy values are \<^verbatim>\<open>""\<close>, \<^verbatim>\<open>0\<close> and \<^verbatim>\<open>NaN\<close>.\<close>

fun ToBoolean :: "jsvalue \<Rightarrow> bool" where
  "ToBoolean (JSString s) = (s \<noteq> [])"
| "ToBoolean (JSNumber n) = (n \<noteq> Finite 0 \<and> n \<noteq> NaN)"

text \<open>
  Comparing a value with a number converts it with \<^verbatim>\<open>ToNumber\<close>. The conversion of a
  string is the language's \<^verbatim>\<open>StringToNumber\<close>, taken as a parameter.
\<close>

fun ToNumber :: "(string \<Rightarrow> jsnum) \<Rightarrow> jsvalue \<Rightarrow> jsnum" where
  "ToNumber StringToNumber (JSNumber n) = n"
| "ToNumber StringToNumber (JSString s) = StringToNumber s"

subsection \<open>Types of the component\<close>

text \<open>
  \<^verbatim>\<open>type Country = { name; coordinates; value; openStreetMap? }\<close>. The field \<^verbatim>\<open>value\<close> is
  \<open>val\<close> here.
\<close>

record Country =
  name :: string
  coordinates :: "jsnum \<times> jsnum"
  val :: string
  openStreetMap :: "string option"

text \<open>
  \<^verbatim>\<open>type TripFormData\<close>: an object with the six keys below. The declared field types are
  \<^verbatim>\<open>string\<close> for five of them and \<^verbatim>\<open>number\<close> for \<^verbatim>\<open>duration\<close>; \<open>well_typed\<close> says that an
  object respects them.
\<close>

datatype key = country | travelStyle | interest | budget | duration | groupType

type_synonym TripFormData = "key \<Rightarrow> jsvalue"

definition well_typed :: "TripFormData \<Rightarrow> bool" where
  "well_typed f =
     ((case f country of JSString _ \<Rightarrow> True | JSNumber _ \<Rightarrow> False) \<and>
      (case f travelStyle of JSString _ \<Rightarrow> True | JSNumber _ \<Rightarrow> False) \<and>
      (case f interest of JSString _ \<Rightarrow> True | JSNumber _ \<Rightarrow> False) \<and>
      (case f budget of JSString _ \<Rightarrow> True | JSNumber _ \<Rightarrow> False) \<and>
      (case f duration of JSString _ \<Rightarrow> False | JSNumber _ \<Rightarrow> True) \<and>
      (case f groupType of JSString _ \<Rightarrow> True | JSNumber _ \<Rightarrow> False))"

text \<open>
  The initial form object of \<^verbatim>\<open>useState\<close>: \<^verbatim>\<open>countries[0]?.value || ""\<close> for the country, \<^verbatim>\<open>0\<close>
  for the duration, \<^verbatim>\<open>""\<close> elsewhere.
\<close>

definition initial_formData :: "Country list \<Rightarrow> TripFormData" where
  "initial_formData countries k =
     (case k of
        country \<Rightarrow> JSString (case countries of [] \<Rightarrow> [] | c # _ \<Rightarrow> val c)
      | travelStyle \<Rightarrow> JSString []
      | interest \<Rightarrow> JSString []
      | budget \<Rightarrow> JSString []
      | duration \<Rightarrow> JSNumber (Finite 0)
      | groupType \<Rightarrow> JSString [])"

text \<open>\<^verbatim>\<open>type CreateTripResponse = { id?: string }\<close>; the field \<^verbatim>\<open>id\<close> is \<open>id_opt\<close> here.\<close>

record CreateTripResponse =
  id_opt :: "string option"

text \<open>The three \<^verbatim>\<open>useState\<close> cells of the component.\<close>

record page =
  formData :: TripFormData
  loading :: bool
  error :: "string option"


subsection \<open>The outside world of the submit handler\<close>

text \<open>
  \<^verbatim>\<open>account.get()\<close> of the auth client either rejects or yields a user object whose \<^verbatim>\<open>$id\<close>
  may be missing (\<open>None\<close>) or empty; both are falsy for \<^verbatim>\<open>!user.$id\<close>, as a missing or
  empty \<^verbatim>\<open>id\<close> is for \<^verbatim>\<open>result?.id\<close>.
\<close>

datatype jserror = Thrown string

record user =
  dollar_id :: "string option"

text \<open>
  A JSON document, as the value its text denotes. \<^verbatim>\<open>JSON.stringify\<close> writes a string
  as a string, a finite number as a number, and \<^verbatim>\<open>NaN\<close> and the infinities as \<^verbatim>\<open>null\<close>;
  the properties of an object literal come out in the order they are written.
\<close>

datatype json = JObject "(string \<times> json) list" | JString string | JNumber rat | JNull

fun SerializeJSONProperty :: "jsvalue \<Rightarrow> json" where
  "SerializeJSONProperty (JSString s) = JString s"
| "SerializeJSONProperty (JSNumber (Finite r)) = JNumber r"
| "SerializeJSONProperty (JSNumber NaN) = JNull"
| "SerializeJSONProperty (JSNumber PosInf) = JNull"
| "SerializeJSONProperty (JSNumber NegInf) = JNull"

definition JSON_stringify :: "(string \<times> jsvalue) list \<Rightarrow> json" where
  "JSON_stringify props = JObject (map (\<lambda>(k, v). (k, SerializeJSONProperty v)) props)"

record request =
  url :: string
  http_method :: string
  headers :: "(string \<times> string) list"
  body :: json

text \<open>
  What \<^verbatim>\<open>fetch\<close> resolves to: the handler never reads the status, and \<^verbatim>\<open>resp.json()\<close>
  either rejects or yields the parsed document, \<^verbatim>\<open>null\<close> (\<open>None\<close>) or an object of type
  \<^verbatim>\<open>CreateTripResponse\<close>.
\<close>

record response =
  status :: nat
  json_result :: "jserror + CreateTripResponse option"

record world =
  StringToNumber :: "string \<Rightarrow> jsnum"
  account_get :: "jserror + user"
  fetch :: "request \<Rightarrow> jserror + response"

text \<open>
  Everything the handler does that can be observed from outside, in the order it does
  it, and how the promise of the \<^verbatim>\<open>async\<close> function settles.
\<close>

datatype event =
    PreventDefault
  | SetLoading bool
  | SetError string
  | AccountGet
  | Fetch request
  | ConsoleError string "jserror option"
  | Navigate string

datatype outcome = Fulfilled | Rejected jserror

record run =
  after :: page
  trace :: "event list"
  promise :: outcome

section \<open>The handlers\<close>

subsection \<open>\<^verbatim>\<open>handleChange\<close>\<close>

text \<open>
  \<^verbatim>\<open>setFormData((s) => ({ ...s, [key]: value }))\<close>: the updater that React applies to the
  current form object.
\<close>

definition handleChange :: "key \<Rightarrow> jsvalue \<Rightarrow> TripFormData \<Rightarrow> TripFormData" where
  "handleChange k v = (\<lambda>s. s(k := v))"

subsection \<open>\<^verbatim>\<open>handleSubmit\<close>\<close>

text \<open>The two guards at the head of the handler, as written.\<close>

definition missing_fields :: "TripFormData \<Rightarrow> bool" where
  "missing_fields f =
     (\<not> ToBoolean (f country) \<or>
      \<not> ToBoolean (f travelStyle) \<or>
      \<not> ToBoolean (f interest) \<or>
      \<not> ToBoolean (f budget) \<or>
      \<not> ToBoolean (f groupType))"

definition duration_out_of_range :: "world \<Rightarrow> TripFormData \<Rightarrow> bool" where
  "duration_out_of_range w f =
     (js_less (ToNumber (StringToNumber w) (f duration)) (Finite 1) \<or>
      js_less (Finite 10) (ToNumber (StringToNumber w) (f duration)))"

text \<open>The argument of \<^verbatim>\<open>fetch\<close>; \<open>http_method\<close> is the \<^verbatim>\<open>method\<close> option.\<close>

definition create_trip_request :: "TripFormData \<Rightarrow> string \<Rightarrow> request" where
  "create_trip_request f uid =
     \<lparr> url = ''/api/create-trip'',
       http_method = ''POST'',
       headers = [(''Content-Type'', ''application/json'')],
       body = JSON_stringify
         [(''country'', f country),
          (''numberOfDays'', f duration),
          (''travelStyle'', f travelStyle),
          (''interests'', f interest),
          (''budget'', f budget),
          (''groupType'', f groupType),
          (''userId'', JSString uid)] \<rparr>"

text \<open>
  The body of the \<^verbatim>\<open>try\<close> block, entered with an authenticated user id: the events it
  adds. Whatever happens inside, \<^verbatim>\<open>finally\<close> ends it with \<^verbatim>\<open>setLoading(false)\<close>.
\<close>

definition try_block :: "world \<Rightarrow> TripFormData \<Rightarrow> string \<Rightarrow> event list" where
  "try_block w f uid =
     (let req = create_trip_request f uid in
      Fetch req #
      (case fetch w req of
         Inl err \<Rightarrow> [ConsoleError ''Error generating itinerary:'' (Some err)]
       | Inr resp \<Rightarrow>
          (case json_result resp of
             Inl err \<Rightarrow> [ConsoleError ''Error generating itinerary:'' (Some err)]
           | Inr None \<Rightarrow> [ConsoleError ''Failed to generate itinerary'' None]
           | Inr (Some result) \<Rightarrow>
              (case id_opt result of
                 None \<Rightarrow> [ConsoleError ''Failed to generate itinerary'' None]
               | Some i \<Rightarrow>
                  if i \<noteq> [] then [Navigate (''/admin/trip-detail/'' @ i)]
                  else [ConsoleError ''Failed to generate itinerary'' None])))
      @ [SetLoading False])"

text \<open>
  The handler, run on the page state \<open>p\<close> it closed over. The await of \<^verbatim>\<open>account.get()\<close>
  stands before the \<^verbatim>\<open>try\<close>: when it rejects, the handler's promise rejects there and
  nothing after it runs.
\<close>

definition handleSubmit :: "world \<Rightarrow> page \<Rightarrow> run" where
  "handleSubmit w p =
     (let f = formData p;
          p1 = p\<lparr>loading := True\<rparr>;
          t1 = [PreventDefault, SetLoading True];
          not_authenticated =
            \<lparr> after = p1\<lparr>loading := False\<rparr>,
              trace = t1 @ [AccountGet, ConsoleError ''User not authenticated'' None,
                            SetLoading False],
              promise = Fulfilled \<rparr>
      in
      if missing_fields f then
        \<lparr> after = p1\<lparr>error := Some ''Please provide input for all fields'', loading := False\<rparr>,
          trace = t1 @ [SetError ''Please provide input for all fields'', SetLoading False],
          promise = Fulfilled \<rparr>
      else if duration_out_of_range w f then
        \<lparr> after = p1\<lparr>error := Some ''Duration must be between 1 and 10 days'', loading := False\<rparr>,
          trace = t1 @ [SetError ''Duration must be between 1 and 10 days'', SetLoading False],
          promise = Fulfilled \<rparr>
      else
        (case account_get w of
           Inl err \<Rightarrow>
             \<lparr> after = p1, trace = t1 @ [AccountGet], promise = Rejected err \<rparr>
         | Inr u \<Rightarrow>
            (case dollar_id u of
               None \<Rightarrow> not_authenticated
             | Some uid \<Rightarrow>
                 if uid = [] then not_authenticated
                 else
                   \<lparr> after = p1\<lparr>loading := False\<rparr>,
                     trace = t1 @ [AccountGet] @ try_block w f uid,
                     promise = Fulfilled \<rparr>)))"

text \<open>The submit button: \<^verbatim>\<open>disabled={loading}\<close>.\<close>

definition submit_disabled :: "page \<Rightarrow> bool" where
  "submit_disabled p = loading p"


subsection \<open>The \<^verbatim>\<open>filtering\<close> callback of the country combo box\<close>

text \<open>
  \<^verbatim>\<open>s.includes(q)\<close>: \<open>q\<close> occurs in \<open>s\<close> as a contiguous run, searched from the left. The
  empty string occurs in every string.
\<close>

fun str_includes :: "string \<Rightarrow> string \<Rightarrow> bool" where
  "str_includes [] q = (q = [])"
| "str_includes (c # s) q = (prefix q (c # s) \<or> str_includes s q)"

text \<open>An entry of the combo box's data source: \<^verbatim>\<open>{ text, value }\<close>.\<close>

record item =
  item_text :: string
  item_value :: string

text \<open>\<^verbatim>\<open>countries.map((c) => ({ text: c.name, value: c.value }))\<close>, the unfiltered data source.\<close>

definition countryData :: "Country list \<Rightarrow> item list" where
  "countryData countries = map (\<lambda>c. \<lparr> item_text = name c, item_value = val c \<rparr>) countries"

text \<open>
  The callback receives the typed text \<^verbatim>\<open>e.text\<close> (\<open>None\<close> when it is \<^verbatim>\<open>null\<close> or
  \<^verbatim>\<open>undefined\<close>) and hands \<^verbatim>\<open>e.updateData\<close> the list computed here. The language's
  \<^verbatim>\<open>String.prototype.toLowerCase\<close> is a parameter: the callback is modelled for every
  lower-casing function.
\<close>

definition filtering :: "(string \<Rightarrow> string) \<Rightarrow> Country list \<Rightarrow> string option \<Rightarrow> item list" where
  "filtering toLowerCase countries e_text =
     (let query = toLowerCase (case e_text of None \<Rightarrow> [] | Some t \<Rightarrow> t) in
      map (\<lambda>c. \<lparr> item_text = name c, item_value = val c \<rparr>)
        (filter (\<lambda>c. str_includes (toLowerCase (name c)) query) countries))"

section \<open>Observations and sample inputs\<close>

text \<open>The requests handed to \<^verbatim>\<open>fetch\<close> during a run, in order.\<close>

fun fetches :: "event list \<Rightarrow> request list" where
  "fetches [] = []"
| "fetches (Fetch r # es) = r # fetches es"
| "fetches (_ # es) = fetches es"

text \<open>
  A parsed response "lacking an id (or with a falsy id)": \<^verbatim>\<open>null\<close>, an object without
  \<^verbatim>\<open>id\<close>, or one whose \<^verbatim>\<open>id\<close> is the empty string.
\<close>

fun lacks_id :: "CreateTripResponse option \<Rightarrow> bool" where
  "lacks_id None = True"
| "lacks_id (Some r) = (case id_opt r of None \<Rightarrow> True | Some i \<Rightarrow> i = [])"

text \<open>A filled-in form, a page holding it, and a world in which every call succeeds.\<close>

definition example_form :: TripFormData where
  "example_form k =
     (case k of
        country \<Rightarrow> JSString ''France''
      | travelStyle \<Rightarrow> JSString ''Relaxed''
      | interest \<Rightarrow> JSString ''Food''
      | budget \<Rightarrow> JSString ''Luxury''
      | duration \<Rightarrow> JSNumber (Finite 5)
      | groupType \<Rightarrow> JSString ''Solo'')"

definition example_page :: page where
  "example_page = \<lparr> formData = example_form, loading = False, error = None \<rparr>"

definition example_world :: world where
  "example_world =
     \<lparr> StringToNumber = (\<lambda>s. NaN),
       account_get = Inr \<lparr> dollar_id = Some ''u1'' \<rparr>,
       fetch = (\<lambda>req. Inr \<lparr> status = 200,
                              json_result = Inr (Some \<lparr> id_opt = Some ''t42'' \<rparr>) \<rparr>) \<rparr>"

text \<open>
  Variations of that world: the backend answers with an object that has no \<^verbatim>\<open>id\<close>, the auth
  client returns a user without \<^verbatim>\<open>$id\<close>, and the auth client rejects (as it does when there
  is no session).
\<close>

definition no_id_world :: world where
  "no_id_world =
     example_world\<lparr>fetch := \<lambda>req. Inr \<lparr> status = 200,
                                          json_result = Inr (Some \<lparr> id_opt = None \<rparr>) \<rparr>\<rparr>"

definition anonymous_world :: world where
  "anonymous_world = example_world\<lparr>account_get := Inr \<lparr> dollar_id = None \<rparr>\<rparr>"

definition rejecting_world :: world where
  "rejecting_world = example_world\<lparr>account_get := Inl (Thrown ''no session'')\<rparr>"

text \<open>Lower-casing of the ASCII letters, and a short country list, for running the filter.\<close>

definition ascii_lower :: "string \<Rightarrow> string" where
  "ascii_lower s =
     map (\<lambda>c. case map_of (zip ''ABCDEFGHIJKLMNOPQRSTUVWXYZ'' ''abcdefghijklmnopqrstuvwxyz'') c of
                 None \<Rightarrow> c | Some l \<Rightarrow> l) s"

definition example_countries :: "Country list" where
  "example_countries =
     [\<lparr> name = ''FR France'', coordinates = (Finite 46, Finite 2), val = ''France'',
        openStreetMap = None \<rparr>,
      \<lparr> name = ''FI Finland'', coordinates = (Finite 64, Finite 26), val = ''Finland'',
        openStreetMap = None \<rparr>,
      \<lparr> name = ''DE Germany'', coordinates = (Finite 51, Finite 9), val = ''Germany'',
        openStreetMap = None \<rparr>,
      \<lparr> name = ''IS Iceland'', coordinates = (Finite 65, Finite (-18)), val = ''Iceland'',
        openStreetMap = None \<rparr>]"

section \<open>Properties\<close>

subsection \<open>Auxiliary facts\<close>

lemmas sample_defs =
  example_form_def example_page_def example_world_def
  no_id_world_def anonymous_world_def rejecting_world_def
  missing_fields_def duration_out_of_range_def
  try_block_def create_trip_request_def JSON_stringify_def

lemma str_includes_sublist: "str_includes s q \<longleftrightarrow> sublist q s"
  by (induction s) (auto simp: sublist_Cons_right)

lemma fetches_try_block:
  "fetches (try_block w f uid) = [create_trip_request f uid]"
  by (simp add: try_block_def Let_def split: sum.splits option.splits)

lemma initial_formData_well_typed: "well_typed (initial_formData countries)"
  by (simp add: well_typed_def initial_formData_def)

lemma initial_formData_missing_fields: "missing_fields (initial_formData countries)"
  by (simp add: missing_fields_def initial_formData_def)

lemma example_form_passes:
  "\<not> missing_fields example_form \<and> \<not> duration_out_of_range w example_form"
  by (simp add: example_form_def missing_fields_def duration_out_of_range_def)

subsection \<open>Validation\<close>

text \<open>
  C1. Whenever one of \<^verbatim>\<open>country\<close>, \<^verbatim>\<open>travelStyle\<close>, \<^verbatim>\<open>interest\<close>, \<^verbatim>\<open>budget\<close>, \<^verbatim>\<open>groupType\<close> is the
  empty string, the submit handler sets the message "Please provide input for all
  fields", resets the loading flag and returns: the run contains neither the auth lookup
  nor a \<^verbatim>\<open>fetch\<close>, and the form data is the one it started with.
\<close>

theorem submit_missing_field_rejected:
  assumes "k \<in> {country, travelStyle, interest, budget, groupType}"
      and "formData p k = JSString []"
  shows "handleSubmit w p =
           \<lparr> after = p\<lparr>error := Some ''Please provide input for all fields'', loading := False\<rparr>,
             trace = [PreventDefault, SetLoading True,
                      SetError ''Please provide input for all fields'', SetLoading False],
             promise = Fulfilled \<rparr>
         \<and> AccountGet \<notin> set (trace (handleSubmit w p))
         \<and> fetches (trace (handleSubmit w p)) = []
         \<and> formData (after (handleSubmit w p)) = formData p"
proof -
  from assms have "missing_fields (formData p)"
    by (auto simp: missing_fields_def)
  then show ?thesis
    by (simp add: handleSubmit_def)
qed

theorem submit_missing_field_rejected_witness:
  "handleSubmit example_world (example_page\<lparr>formData := example_form(interest := JSString [])\<rparr>) =
     \<lparr> after = \<lparr> formData = example_form(interest := JSString []), loading = False,
                 error = Some ''Please provide input for all fields'' \<rparr>,
       trace = [PreventDefault, SetLoading True,
                SetError ''Please provide input for all fields'', SetLoading False],
       promise = Fulfilled \<rparr>"
proof -
  let ?p = "example_page\<lparr>formData := example_form(interest := JSString [])\<rparr>"
  have k: "interest \<in> {country, travelStyle, interest, budget, groupType}" by simp
  have e: "formData ?p interest = JSString []" by simp
  show ?thesis
    using submit_missing_field_rejected [OF k e, of example_world]
    by (simp add: example_page_def)
qed

text \<open>
  Which numbers pass the range guard \<^verbatim>\<open>duration < 1 || duration > 10\<close>: those between 1 and
  10, and \<^verbatim>\<open>NaN\<close>, which compares false both ways.
\<close>

lemma number_passes_range_guard:
  "formData p duration = JSNumber n \<Longrightarrow>
     \<not> duration_out_of_range w (formData p) \<longleftrightarrow>
       n = NaN \<or> (\<exists>d. n = Finite d \<and> 1 \<le> d \<and> d \<le> 10)"
  by (cases n) (auto simp: duration_out_of_range_def)

text \<open>
  For an object of the declared type \<^verbatim>\<open>TripFormData\<close>, passing both guards with a duration
  other than \<^verbatim>\<open>NaN\<close> is the same as: five non-empty strings and a duration between 1 and 10.
\<close>

lemma passes_validation_iff:
  assumes "well_typed f"
  shows "\<not> missing_fields f \<and> \<not> duration_out_of_range w f \<and> f duration \<noteq> JSNumber NaN \<longleftrightarrow>
         (\<exists>c ts i b g d.
            f country = JSString c \<and> c \<noteq> [] \<and>
            f travelStyle = JSString ts \<and> ts \<noteq> [] \<and>
            f interest = JSString i \<and> i \<noteq> [] \<and>
            f budget = JSString b \<and> b \<noteq> [] \<and>
            f groupType = JSString g \<and> g \<noteq> [] \<and>
            f duration = JSNumber (Finite d) \<and> 1 \<le> d \<and> d \<le> 10)"
proof -
  from assms obtain c ts i b g n where f:
    "f country = JSString c" "f travelStyle = JSString ts" "f interest = JSString i"
    "f budget = JSString b" "f groupType = JSString g" "f duration = JSNumber n"
    by (auto simp: well_typed_def split: jsvalue.splits)
  show ?thesis
    by (cases n) (auto simp: f missing_fields_def duration_out_of_range_def)
qed



subsection \<open>Filtering the country list\<close>

text \<open>
  C3. For every country list and every typed text, the filtering callback hands the
  combo box exactly the \<^verbatim>\<open>{text, value}\<close> entries of the countries whose lower-cased name
  contains the lower-cased query as a contiguous substring, in the order of the list: the
  result is the mapped sublist, it is a subsequence of the unfiltered data source, and a
  country of the list has its entry in the result if and only if its lower-cased name
  contains the lower-cased query.
\<close>

theorem filtering_exact:
  "filtering toLowerCase countries e_text =
     map (\<lambda>c. \<lparr> item_text = name c, item_value = val c \<rparr>)
       (filter (\<lambda>c. sublist (toLowerCase (case e_text of None \<Rightarrow> [] | Some t \<Rightarrow> t))
                             (toLowerCase (name c))) countries)
   \<and> subseq (filtering toLowerCase countries e_text) (countryData countries)
   \<and> (\<forall>c \<in> set countries.
         \<lparr> item_text = name c, item_value = val c \<rparr> \<in> set (filtering toLowerCase countries e_text)
         \<longleftrightarrow> sublist (toLowerCase (case e_text of None \<Rightarrow> [] | Some t \<Rightarrow> t))
                     (toLowerCase (name c)))"
proof -
  let ?q = "toLowerCase (case e_text of None \<Rightarrow> [] | Some t \<Rightarrow> t)"
  let ?item = "\<lambda>c. \<lparr> item_text = name c, item_value = val c \<rparr>"
  let ?keep = "\<lambda>c. sublist ?q (toLowerCase (name c))"
  have eq: "filtering toLowerCase countries e_text = map ?item (filter ?keep countries)"
    by (simp add: filtering_def str_includes_sublist)
  have sub: "subseq (map ?item (filter ?keep countries)) (countryData countries)"
    unfolding countryData_def by (intro subseq_map subseq_filter_left)
  have mem: "?item c \<in> set (map ?item (filter ?keep countries)) \<longleftrightarrow> ?keep c"
    if "c \<in> set countries" for c
    using that by auto
  show ?thesis
    unfolding eq using sub mem by blast
qed

theorem filtering_exact_witness:
  "filtering ascii_lower example_countries (Some ''LAND'') =
     [\<lparr> item_text = ''FI Finland'', item_value = ''Finland'' \<rparr>,
      \<lparr> item_text = ''IS Iceland'', item_value = ''Iceland'' \<rparr>]
   \<and> sublist (ascii_lower ''LAND'') (ascii_lower ''FI Finland'')
   \<and> \<not> sublist (ascii_lower ''LAND'') (ascii_lower ''FR France'')"
proof -
  have r: "filtering ascii_lower example_countries (Some ''LAND'') =
     [\<lparr> item_text = ''FI Finland'', item_value = ''Finland'' \<rparr>,
      \<lparr> item_text = ''IS Iceland'', item_value = ''Iceland'' \<rparr>]"
    by (simp add: filtering_def Let_def example_countries_def ascii_lower_def)
  have fi: "\<lparr> name = ''FI Finland'', coordinates = (Finite 64, Finite 26), val = ''Finland'',
              openStreetMap = None \<rparr> \<in> set example_countries"
    and fr: "\<lparr> name = ''FR France'', coordinates = (Finite 46, Finite 2), val = ''France'',
              openStreetMap = None \<rparr> \<in> set example_countries"
    by (simp_all add: example_countries_def)
  from conjunct2 [OF conjunct2 [OF filtering_exact [of ascii_lower example_countries "Some ''LAND''"]]]
  have all: "\<forall>c \<in> set example_countries.
               \<lparr> item_text = name c, item_value = val c \<rparr>
                 \<in> set (filtering ascii_lower example_countries (Some ''LAND''))
               \<longleftrightarrow> sublist (ascii_lower ''LAND'') (ascii_lower (name c))"
    by simp
  from bspec [OF all fi] bspec [OF all fr] show ?thesis
    by (simp add: r)
qed

subsection \<open>The submission flow\<close>

text \<open>
  C4. The handler navigates exactly when its create-trip POST was issued, resolved, and
  its parsed JSON holds a non-empty \<^verbatim>\<open>id\<close>; the path is then \<^verbatim>\<open>/admin/trip-detail/\<close> followed
  by that id. In every other case the run contains no navigation. (The HTTP status of the
  response plays no part.)
\<close>

theorem navigate_iff_post_returned_id:
  "Navigate path \<in> set (trace (handleSubmit w p)) \<longleftrightarrow>
     (\<exists>req resp r i.
         Fetch req \<in> set (trace (handleSubmit w p)) \<and>
         fetch w req = Inr resp \<and>
         json_result resp = Inr (Some r) \<and>
         id_opt r = Some i \<and> i \<noteq> [] \<and>
         path = ''/admin/trip-detail/'' @ i)"
  by (auto simp: handleSubmit_def try_block_def Let_def
           split: sum.splits option.splits if_splits)

theorem navigate_iff_post_returned_id_witness:
  "Navigate ''/admin/trip-detail/t42'' \<in> set (trace (handleSubmit example_world example_page))
   \<and> Navigate ''/admin/trip-detail/t42'' \<notin> set (trace (handleSubmit no_id_world example_page))"
proof -
  let ?req = "create_trip_request example_form ''u1''"
  have sent: "Fetch ?req \<in> set (trace (handleSubmit example_world example_page))"
    by (simp add: handleSubmit_def sample_defs)
  have yes: "\<exists>req resp r i.
         Fetch req \<in> set (trace (handleSubmit example_world example_page)) \<and>
         fetch example_world req = Inr resp \<and>
         json_result resp = Inr (Some r) \<and>
         id_opt r = Some i \<and> i \<noteq> [] \<and>
         ''/admin/trip-detail/t42'' = ''/admin/trip-detail/'' @ i"
    using sent
    by (intro exI [of _ ?req]
              exI [of _ "\<lparr> status = 200, json_result = Inr (Some \<lparr> id_opt = Some ''t42'' \<rparr>) \<rparr>"]
              exI [of _ "\<lparr> id_opt = Some ''t42'' \<rparr>"] exI [of _ "''t42''"])
       (simp add: example_world_def)
  have no: "\<not> (\<exists>req resp r i.
         Fetch req \<in> set (trace (handleSubmit no_id_world example_page)) \<and>
         fetch no_id_world req = Inr resp \<and>
         json_result resp = Inr (Some r) \<and>
         id_opt r = Some i \<and> i \<noteq> [] \<and>
         ''/admin/trip-detail/t42'' = ''/admin/trip-detail/'' @ i)"
    by (auto simp: no_id_world_def)
  from yes no show ?thesis
    using navigate_iff_post_returned_id [of "''/admin/trip-detail/t42''" example_world example_page]
          navigate_iff_post_returned_id [of "''/admin/trip-detail/t42''" no_id_world example_page]
    by blast
qed

text \<open>
  C5. When the create-trip POST was issued and resolved with a parsed JSON lacking an id
  (\<^verbatim>\<open>null\<close>, no \<^verbatim>\<open>id\<close>, or an empty \<^verbatim>\<open>id\<close>), the handler logs "Failed to generate itinerary"
  and does nothing else: the run has no navigation and no \<^verbatim>\<open>setError\<close>, and the page ends
  as it began but for \<^verbatim>\<open>loading = false\<close>.
\<close>

theorem post_without_id_only_logs:
  assumes "Fetch req \<in> set (trace (handleSubmit w p))"
      and "fetch w req = Inr resp"
      and "json_result resp = Inr result"
      and "lacks_id result"
  shows "trace (handleSubmit w p) =
           [PreventDefault, SetLoading True, AccountGet, Fetch req,
            ConsoleError ''Failed to generate itinerary'' None, SetLoading False] \<and>
         after (handleSubmit w p) = p\<lparr>loading := False\<rparr> \<and>
         promise (handleSubmit w p) = Fulfilled"
  using assms
  by (cases result)
     (auto simp: handleSubmit_def try_block_def Let_def
           split: sum.splits option.splits if_splits)

theorem post_without_id_only_logs_witness:
  "trace (handleSubmit no_id_world example_page) =
     [PreventDefault, SetLoading True, AccountGet,
      Fetch (create_trip_request example_form ''u1''),
      ConsoleError ''Failed to generate itinerary'' None, SetLoading False]
   \<and> after (handleSubmit no_id_world example_page) = example_page
   \<and> promise (handleSubmit no_id_world example_page) = Fulfilled"
proof -
  let ?resp = "\<lparr> status = 200, json_result = Inr (Some \<lparr> id_opt = None \<rparr>) \<rparr>"
  let ?req = "create_trip_request example_form ''u1''"
  have 1: "Fetch ?req \<in> set (trace (handleSubmit no_id_world example_page))"
    by (simp add: handleSubmit_def sample_defs)
  have 2: "fetch no_id_world ?req = Inr ?resp"
    by (simp add: no_id_world_def)
  have 3: "json_result ?resp = Inr (Some \<lparr> id_opt = None \<rparr>)" by simp
  have 4: "lacks_id (Some \<lparr> id_opt = None \<rparr>)" by simp
  show ?thesis
    using post_without_id_only_logs [OF 1 2 3 4]
    by (simp add: example_page_def)
qed

text \<open>
  C6. For a form that passes validation (five non-empty strings and a duration between 1
  and 10) and an authenticated user, exactly one request is handed to \<^verbatim>\<open>fetch\<close>: a POST to \<^verbatim>\<open>/api/create-trip\<close> with a JSON content type, whose body
  is the object with the keys \<^verbatim>\<open>country\<close>, \<^verbatim>\<open>numberOfDays\<close>, \<^verbatim>\<open>travelStyle\<close>, \<^verbatim>\<open>interests\<close>, \<^verbatim>\<open>budget\<close>,
  \<^verbatim>\<open>groupType\<close>, \<^verbatim>\<open>userId\<close> and no other, holding the form's duration, its interest, the
  user's id and the like-named fields.
\<close>

theorem create_trip_request_sent:
  assumes "formData p country = JSString c" and "c \<noteq> []"
      and "formData p travelStyle = JSString ts" and "ts \<noteq> []"
      and "formData p interest = JSString i" and "i \<noteq> []"
      and "formData p budget = JSString b" and "b \<noteq> []"
      and "formData p groupType = JSString g" and "g \<noteq> []"
      and "formData p duration = JSNumber (Finite d)" and "1 \<le> d" and "d \<le> 10"
      and "account_get w = Inr u" and "dollar_id u = Some uid" and "uid \<noteq> []"
  shows "fetches (trace (handleSubmit w p)) =
           [\<lparr> url = ''/api/create-trip'',
              http_method = ''POST'',
              headers = [(''Content-Type'', ''application/json'')],
              body = JObject
                [(''country'', JString c),
                 (''numberOfDays'', JNumber d),
                 (''travelStyle'', JString ts),
                 (''interests'', JString i),
                 (''budget'', JString b),
                 (''groupType'', JString g),
                 (''userId'', JString uid)] \<rparr>]"
proof -
  have "\<not> missing_fields (formData p)" and "\<not> duration_out_of_range w (formData p)"
    using assms by (simp_all add: missing_fields_def duration_out_of_range_def)
  then have "fetches (trace (handleSubmit w p)) = [create_trip_request (formData p) uid]"
    using assms by (simp add: handleSubmit_def fetches_try_block)
  then show ?thesis
    using assms by (simp add: create_trip_request_def JSON_stringify_def)
qed

theorem create_trip_request_sent_witness:
  "fetches (trace (handleSubmit example_world example_page)) =
     [\<lparr> url = ''/api/create-trip'',
        http_method = ''POST'',
        headers = [(''Content-Type'', ''application/json'')],
        body = JObject
          [(''country'', JString ''France''),
           (''numberOfDays'', JNumber 5),
           (''travelStyle'', JString ''Relaxed''),
           (''interests'', JString ''Food''),
           (''budget'', JString ''Luxury''),
           (''groupType'', JString ''Solo''),
           (''userId'', JString ''u1'')] \<rparr>]"
proof -
  have f: "formData example_page country = JSString ''France''"
          "formData example_page travelStyle = JSString ''Relaxed''"
          "formData example_page interest = JSString ''Food''"
          "formData example_page budget = JSString ''Luxury''"
          "formData example_page groupType = JSString ''Solo''"
          "formData example_page duration = JSNumber (Finite 5)"
    by (simp_all add: example_page_def example_form_def)
  have u: "account_get example_world = Inr \<lparr> dollar_id = Some ''u1'' \<rparr>"
    by (simp add: example_world_def)
  show ?thesis
    by (rule create_trip_request_sent [OF f(1) _ f(2) _ f(3) _ f(4) _ f(5) _ f(6) _ _ u]) simp_all
qed

text \<open>
  C7. When the form passes the two guards and the auth lookup returns a user whose \<^verbatim>\<open>$id\<close>
  is missing or empty, the handler logs "User not authenticated", resets the loading flag
  and returns: no \<^verbatim>\<open>fetch\<close>, no \<^verbatim>\<open>setError\<close>, and the page ends as it began but for
  \<^verbatim>\<open>loading = false\<close>.
\<close>

theorem unauthenticated_user_aborts:
  assumes "\<not> missing_fields (formData p)"
      and "\<not> duration_out_of_range w (formData p)"
      and "account_get w = Inr u"
      and "dollar_id u = None \<or> dollar_id u = Some []"
  shows "handleSubmit w p =
           \<lparr> after = p\<lparr>loading := False\<rparr>,
             trace = [PreventDefault, SetLoading True, AccountGet,
                      ConsoleError ''User not authenticated'' None, SetLoading False],
             promise = Fulfilled \<rparr>"
  using assms by (auto simp: handleSubmit_def)

theorem unauthenticated_user_aborts_witness:
  "handleSubmit anonymous_world example_page =
     \<lparr> after = example_page,
       trace = [PreventDefault, SetLoading True, AccountGet,
                ConsoleError ''User not authenticated'' None, SetLoading False],
       promise = Fulfilled \<rparr>"
proof -
  have v: "\<not> missing_fields (formData example_page)"
          "\<not> duration_out_of_range anonymous_world (formData example_page)"
    using example_form_passes by (simp_all add: example_page_def)
  have u: "account_get anonymous_world = Inr \<lparr> dollar_id = None \<rparr>"
    by (simp add: anonymous_world_def)
  have n: "dollar_id \<lparr> dollar_id = None \<rparr> = None \<or> dollar_id \<lparr> dollar_id = None \<rparr> = Some []"
    by simp
  show ?thesis
    using unauthenticated_user_aborts [OF v u n] by (simp add: example_page_def)
qed

subsection \<open>Failures after validation\<close>

text \<open>
  A rejection of \<^verbatim>\<open>fetch\<close> and a failure of \<^verbatim>\<open>resp.json()\<close> are caught: the handler logs the
  error, resets the loading flag and sets no error message.
\<close>

lemma post_failure_logged:
  assumes "Fetch req \<in> set (trace (handleSubmit w p))"
      and "fetch w req = Inl err \<or> (\<exists>resp. fetch w req = Inr resp \<and> json_result resp = Inl err)"
  shows "handleSubmit w p =
           \<lparr> after = p\<lparr>loading := False\<rparr>,
             trace = [PreventDefault, SetLoading True, AccountGet, Fetch req,
                      ConsoleError ''Error generating itinerary:'' (Some err), SetLoading False],
             promise = Fulfilled \<rparr>"
  using assms
  by (auto simp: handleSubmit_def try_block_def Let_def
           split: sum.splits option.splits if_splits)

text \<open>Past the two guards the handler never calls \<^verbatim>\<open>setError\<close>.\<close>

lemma no_error_message_after_validation:
  assumes "\<not> missing_fields (formData p)" and "\<not> duration_out_of_range w (formData p)"
  shows "SetError m \<notin> set (trace (handleSubmit w p)) \<and>
         error (after (handleSubmit w p)) = error p"
  using assms
  by (auto simp: handleSubmit_def try_block_def Let_def
           split: sum.splits option.splits if_splits)

text \<open>
  The await of \<^verbatim>\<open>account.get()\<close> is not inside the \<^verbatim>\<open>try\<close>: when it rejects, the handler
  stops there, its promise rejects, nothing is logged and the loading flag stays set.
\<close>

lemma auth_rejection:
  assumes "\<not> missing_fields (formData p)"
      and "\<not> duration_out_of_range w (formData p)"
      and "account_get w = Inl err"
  shows "handleSubmit w p =
           \<lparr> after = p\<lparr>loading := True\<rparr>,
             trace = [PreventDefault, SetLoading True, AccountGet],
             promise = Rejected err \<rparr>"
  using assms by (simp add: handleSubmit_def)

text \<open>It is the only way for the promise to reject, and the only way for the flag to stay set.\<close>

lemma rejected_iff_auth_rejects:
  "promise (handleSubmit w p) = Rejected err \<longleftrightarrow>
     \<not> missing_fields (formData p) \<and> \<not> duration_out_of_range w (formData p) \<and>
     account_get w = Inl err"
  by (auto simp: handleSubmit_def Let_def split: sum.splits option.splits if_splits)

lemma loading_reset_iff_fulfilled:
  "loading (after (handleSubmit w p)) = False \<longleftrightarrow> promise (handleSubmit w p) = Fulfilled"
  by (auto simp: handleSubmit_def Let_def split: sum.splits option.splits if_splits)

lemma loading_set_first:
  "take 2 (trace (handleSubmit w p)) = [PreventDefault, SetLoading True]"
  by (auto simp: handleSubmit_def Let_def split: sum.splits option.splits if_splits)

lemma loading_reset_last:
  "promise (handleSubmit w p) = Fulfilled \<Longrightarrow> last (trace (handleSubmit w p)) = SetLoading False"
  by (auto simp: handleSubmit_def try_block_def Let_def
           split: sum.splits option.splits if_splits)

text \<open>
  C8. The claim asks that every failure after validation, a rejection of the auth lookup
  included, be logged to the console. With a valid form and an auth lookup that rejects,
  the handler logs nothing: the run ends at the lookup and the promise rejects with the
  error.
\<close>

theorem auth_rejection_not_logged:
  "trace (handleSubmit rejecting_world example_page) =
     [PreventDefault, SetLoading True, AccountGet]
   \<and> promise (handleSubmit rejecting_world example_page) = Rejected (Thrown ''no session'')"
  by (simp add: handleSubmit_def sample_defs)

text \<open>
  C9. The claim asks that the loading flag be reset to false on every completion path,
  a thrown error included. With a valid form and an auth lookup that rejects, the flag is
  still true when the handler is done, and the submit button stays disabled.
\<close>

theorem auth_rejection_leaves_loading:
  "loading (after (handleSubmit rejecting_world example_page)) = True
   \<and> submit_disabled (after (handleSubmit rejecting_world example_page))"
  by (simp add: handleSubmit_def submit_disabled_def sample_defs)

subsection \<open>The change handler\<close>

text \<open>
  C10. For every form object, key and value, the object produced by the change handler
  holds the new value under that key and the old value under every other key.
\<close>

theorem handleChange_frame:
  "handleChange k v s k = v \<and> (\<forall>k'. k' \<noteq> k \<longrightarrow> handleChange k v s k' = s k')"
  by (simp add: handleChange_def)

theorem handleChange_frame_witness:
  "handleChange duration (JSNumber (Finite 7)) example_form duration = JSNumber (Finite 7)
   \<and> handleChange duration (JSNumber (Finite 7)) example_form country = JSString ''France''
   \<and> handleChange duration (JSNumber (Finite 7)) example_form travelStyle = JSString ''Relaxed''
   \<and> handleChange duration (JSNumber (Finite 7)) example_form interest = JSString ''Food''
   \<and> handleChange duration (JSNumber (Finite 7)) example_form budget = JSString ''Luxury''
   \<and> handleChange duration (JSNumber (Finite 7)) example_form groupType = JSString ''Solo''"
proof -
  note h = handleChange_frame [of duration "JSNumber (Finite 7)" example_form]
  have other: "handleChange duration (JSNumber (Finite 7)) example_form k' = example_form k'"
    if "k' \<noteq> duration" for k'
    using h that by blast
  from h other [of country] other [of travelStyle] other [of interest] other [of budget]
       other [of groupType]
  show ?thesis
    by (simp add: example_form_def)
qed

end
